theory Spec2Isabelle
  imports Main "HOL-Library.AList"
begin

section \<open>Values, exceptions and the HTTP collaborator\<close>

text \<open>
  The client lives in \<^verbatim>\<open>python-sdk/promptvault/__init__.py\<close>. It raises built-in Python
  exceptions, told apart by their class and message; the remote service is reached through
  \<^verbatim>\<open>requests.get\<close>, which is not part of the repository and is a parameter of the model.
\<close>

text \<open>A Python float as it appears in a decoded JSON document; the client never inspects one.\<close>

typedecl pyfloat

text \<open>
  What \<^verbatim>\<open>response.json()\<close> hands back: \<^verbatim>\<open>None\<close>, a bool, an int, a float, a str, a list or
  a dict with string keys (kept as an association list, looked up with \<open>map_of\<close>).
\<close>

datatype json =
    JNull
  | JBool bool
  | JInt int
  | JFloat pyfloat
  | JStr string
  | JArr "json list"
  | JObj "(string \<times> json) list"

text \<open>
  The exceptions that can leave \<^verbatim>\<open>get_prompt\<close>. \<open>RequestException\<close> stands for any instance of
  \<^verbatim>\<open>requests.exceptions.RequestException\<close> (connection errors, timeouts, ...), carrying its
  \<^verbatim>\<open>str()\<close>; \<open>PyException\<close> is the plain class \<^verbatim>\<open>Exception\<close>. The message of a \<open>TypeError\<close>
  depends on the interpreter and is left out.
\<close>

datatype py_exception =
    ValueError string
  | PyException string
  | KeyError string
  | TypeError
  | RequestException string

text \<open>A value of the \<^verbatim>\<open>params\<close> dictionary: the project slug (a str) or the version (an int).\<close>

datatype param = PStr string | PInt int

text \<open>The keyword arguments of the single call \<^verbatim>\<open>requests.get(url, headers=, params=, timeout=)\<close>.\<close>

record request =
  url :: string
  headers :: "(string \<times> string) list"
  params :: "(string \<times> param) list"
  timeout :: nat

text \<open>
  The parts of a \<^verbatim>\<open>requests.Response\<close> the client reads: \<^verbatim>\<open>status_code\<close>, \<^verbatim>\<open>text\<close> and the
  outcome of \<^verbatim>\<open>json()\<close>, which is the decoded body or the exception the installed
  \<^verbatim>\<open>requests\<close> raises for a body that is not JSON.
\<close>

record response =
  status_code :: int
  text_body :: string
  json_result :: "py_exception + json"

type_synonym http = "request \<Rightarrow> py_exception + response"

section \<open>Python string helpers\<close>

text \<open>\<^verbatim>\<open>s.rstrip(chars)\<close>: drop every trailing character that occurs in \<open>chars\<close>.\<close>

definition rstrip :: "string \<Rightarrow> string \<Rightarrow> string" where
  "rstrip chars s = rev (dropWhile (\<lambda>c. c \<in> set chars) (rev s))"

text \<open>\<^verbatim>\<open>s.replace(old, new)\<close> for single characters \<open>old\<close> and \<open>new\<close>.\<close>

definition replace_char :: "char \<Rightarrow> char \<Rightarrow> string \<Rightarrow> string" where
  "replace_char old new s = map (\<lambda>c. if c = old then new else c) s"

text \<open>\<^verbatim>\<open>str(n)\<close> for an int, as an f-string renders it: decimal digits, a minus sign when negative.\<close>

definition digit_char :: "nat \<Rightarrow> char" where
  "digit_char d = ''0123456789'' ! d"

fun str_nat :: "nat \<Rightarrow> string" where
  "str_nat n = (if n < 10 then [digit_char n] else str_nat (n div 10) @ [digit_char (n mod 10)])"

declare str_nat.simps [simp del]

definition str_int :: "int \<Rightarrow> string" where
  "str_int i = (if i < 0 then CHR ''-'' # str_nat (nat (- i)) else str_nat (nat i))"

text \<open>Truthiness of an \<^verbatim>\<open>Optional[str]\<close>: \<^verbatim>\<open>None\<close> and the empty string are falsy.\<close>

fun truthy_str :: "string option \<Rightarrow> bool" where
  "truthy_str None = False"
| "truthy_str (Some s) = (s \<noteq> [])"

text \<open>The text an \<^verbatim>\<open>Optional[str]\<close> holds when it is known to be truthy.\<close>

fun str_of :: "string option \<Rightarrow> string" where
  "str_of None = []"
| "str_of (Some s) = s"

section \<open>Configuration store\<close>

text \<open>The module-level dictionary \<^verbatim>\<open>_config\<close>, both entries \<^verbatim>\<open>None\<close> when the module is loaded.\<close>

record config =
  base_url :: "string option"
  api_key :: "string option"

definition initial_config :: config where
  "initial_config = \<lparr>base_url = None, api_key = None\<rparr>"

definition configure :: "config \<Rightarrow> string \<Rightarrow> string \<Rightarrow> config" where
  "configure c b k = c\<lparr>base_url := Some (rstrip ''/'' b), api_key := Some k\<rparr>"

text \<open>A run of \<^verbatim>\<open>configure\<close> calls, oldest first.\<close>

fun configure_all :: "config \<Rightarrow> (string \<times> string) list \<Rightarrow> config" where
  "configure_all c [] = c"
| "configure_all c ((b, k) # calls) = configure_all (configure c b k) calls"

section \<open>Prompt fetcher\<close>

text \<open>\<^verbatim>\<open>obj['content']\<close> on a decoded body: a dict looks the key up, anything else cannot be
  indexed by a str.\<close>

fun subscript :: "json \<Rightarrow> string \<Rightarrow> py_exception + json" where
  "subscript (JObj kvs) key =
     (case map_of kvs key of None \<Rightarrow> Inl (KeyError key) | Some v \<Rightarrow> Inr v)"
| "subscript _ key = Inl TypeError"

text \<open>The \<^verbatim>\<open>if/elif\<close> chain on \<^verbatim>\<open>response.status_code\<close>, inside the \<^verbatim>\<open>try\<close>.\<close>

definition apostrophe :: char where
  "apostrophe = CHR 0x27"

definition on_response :: "string \<Rightarrow> string \<Rightarrow> response \<Rightarrow> py_exception + json" where
  "on_response slug project_slug r =
     (if status_code r = 200 then
        (case json_result r of Inl e \<Rightarrow> Inl e | Inr body \<Rightarrow> subscript body ''content'')
      else if status_code r = 401 then Inl (ValueError ''Invalid API key'')
      else if status_code r = 404 then
        Inl (ValueError (''Prompt '' @ [apostrophe] @ slug @ [apostrophe]
               @ '' not found in project '' @ [apostrophe] @ project_slug @ [apostrophe]))
      else if status_code r = 403 then Inl (ValueError ''Access denied to this project'')
      else Inl (PyException (''API error: '' @ str_int (status_code r) @ '' - '' @ text_body r)))"

text \<open>The handler \<^verbatim>\<open>except requests.exceptions.RequestException as e\<close> around the \<^verbatim>\<open>try\<close> body:
  only that class is caught, everything else propagates as it is.\<close>

fun except_request_exception :: "py_exception + json \<Rightarrow> py_exception + json" where
  "except_request_exception (Inl (RequestException e)) = Inl (PyException (''Network error: '' @ e))"
| "except_request_exception res = res"

definition not_configured :: py_exception where
  "not_configured = ValueError ''PromptVault not configured. Call promptvault.configure() first.''"

text \<open>
  The arguments of \<^verbatim>\<open>requests.get\<close>. The dictionary \<^verbatim>\<open>params\<close> starts as
  \<^verbatim>\<open>{'projectSlug': project_slug}\<close>; \<^verbatim>\<open>if version:\<close> adds the key \<^verbatim>\<open>'version'\<close> for a version that
  is neither \<^verbatim>\<open>None\<close> nor \<open>0\<close>. Encoding the dictionary into the query string is done by
  \<^verbatim>\<open>requests\<close>.
\<close>

definition build_request :: "config \<Rightarrow> string \<Rightarrow> string \<Rightarrow> int option \<Rightarrow> request" where
  "build_request c slug project_slug version =
     \<lparr>url = str_of (base_url c) @ ''/api/prompts/'' @ slug,
      headers = [(''x-api-key'', str_of (api_key c))],
      params = (let ps = [(''projectSlug'', PStr project_slug)] in
                case version of
                  None \<Rightarrow> ps
                | Some v \<Rightarrow> if v \<noteq> 0 then AList.update ''version'' (PInt v) ps else ps),
      timeout = 10\<rparr>"

text \<open>
  \<^verbatim>\<open>get_prompt(slug, project_slug, version=None)\<close>. The result pairs the requests handed to
  \<^verbatim>\<open>requests.get\<close>, in order, with what the call returns (\<open>Inr\<close>) or raises (\<open>Inl\<close>).
\<close>

definition get_prompt ::
  "config \<Rightarrow> http \<Rightarrow> string \<Rightarrow> string \<Rightarrow> int option \<Rightarrow> request list \<times> (py_exception + json)" where
  "get_prompt c requests_get slug project_slug version =
     (if \<not> truthy_str (base_url c) \<or> \<not> truthy_str (api_key c) then ([], Inl not_configured)
      else
        let req = build_request c slug project_slug version in
        ([req],
         except_request_exception
           (case requests_get req of
              Inl e \<Rightarrow> Inl e
            | Inr r \<Rightarrow> on_response slug project_slug r)))"

section \<open>Dynamic accessor\<close>

text \<open>An instance of \<^verbatim>\<open>PromptProxy\<close>: its only state is \<^verbatim>\<open>self._project_slug\<close>, set by \<^verbatim>\<open>__init__\<close>.\<close>

datatype prompt_proxy = PromptProxy (project_slug_of: string)

text \<open>\<^verbatim>\<open>PromptProxy.__getattr__(self, name)\<close>: rewrite the name and fetch, with no version.\<close>

definition PromptProxy_getattr ::
  "config \<Rightarrow> http \<Rightarrow> prompt_proxy \<Rightarrow> string \<Rightarrow> request list \<times> (py_exception + json)" where
  "PromptProxy_getattr c requests_get self name =
     (let slug = replace_char CHR ''_'' CHR ''-'' name in
      get_prompt c requests_get slug (project_slug_of self) None)"

text \<open>\<^verbatim>\<open>PromptVaultModule.__getattr__(self, name)\<close>: rewrite the name and build a proxy.\<close>

definition PromptVaultModule_getattr :: "string \<Rightarrow> prompt_proxy" where
  "PromptVaultModule_getattr name =
     (let project_slug = replace_char CHR ''_'' CHR ''-'' name in PromptProxy project_slug)"

text \<open>
  Python evaluates \<^verbatim>\<open>obj.name\<close> by the normal lookup first (the instance's own attributes,
  then its class and the base class \<^verbatim>\<open>object\<close>) and calls \<^verbatim>\<open>__getattr__\<close> only for a name
  that lookup does not find. The names the two classes define themselves are listed here;
  the names every instance gets from \<^verbatim>\<open>object\<close> and the class machinery (\<^verbatim>\<open>__class__\<close>,
  \<^verbatim>\<open>__dict__\<close>, \<^verbatim>\<open>__doc__\<close>, ...) depend on the interpreter and are the parameter \<open>inherited\<close>.
\<close>

definition module_names :: "string list" where
  "module_names = [''__getattr__'', ''configure'', ''get_prompt'']"

definition proxy_names :: "string list" where
  "proxy_names = [''__init__'', ''__getattr__'']"

text \<open>
  What an attribute access yields: data (a str is \<open>JStr\<close>), a proxy, or a member found by
  the normal lookup (a method or an inherited attribute), known by its name only.
\<close>

datatype py_value = Data json | Proxy prompt_proxy | Member string

definition as_value ::
  "request list \<times> (py_exception + json) \<Rightarrow> request list \<times> (py_exception + py_value)" where
  "as_value out = (fst out, case snd out of Inl e \<Rightarrow> Inl e | Inr v \<Rightarrow> Inr (Data v))"

text \<open>\<^verbatim>\<open>root.name\<close> on the \<^verbatim>\<open>PromptVaultModule\<close> instance installed in \<^verbatim>\<open>sys.modules\<close>.\<close>

definition module_attr :: "string list \<Rightarrow> string \<Rightarrow> py_value" where
  "module_attr inherited name =
     (if name \<in> set (module_names @ inherited) then Member name
      else Proxy (PromptVaultModule_getattr name))"

text \<open>\<^verbatim>\<open>proxy.name\<close> on a \<^verbatim>\<open>PromptProxy\<close>: the instance attribute \<^verbatim>\<open>_project_slug\<close> is found by
  the normal lookup and returned without any fetch.\<close>

definition proxy_attr ::
  "string list \<Rightarrow> config \<Rightarrow> http \<Rightarrow> prompt_proxy \<Rightarrow> string
     \<Rightarrow> request list \<times> (py_exception + py_value)" where
  "proxy_attr inherited c requests_get self name =
     (if name = ''_project_slug'' then ([], Inr (Data (JStr (project_slug_of self))))
      else if name \<in> set (proxy_names @ inherited) then ([], Inr (Member name))
      else as_value (PromptProxy_getattr c requests_get self name))"

text \<open>
  \<^verbatim>\<open>root.n.m\<close>. When \<^verbatim>\<open>root.n\<close> is not a proxy but a member found by the normal lookup, the
  second access is on an object this model does not describe: \<open>None\<close>.
\<close>

definition dotted ::
  "string list \<Rightarrow> config \<Rightarrow> http \<Rightarrow> string \<Rightarrow> string
     \<Rightarrow> (request list \<times> (py_exception + py_value)) option" where
  "dotted inherited c requests_get n m =
     (case module_attr inherited n of
        Proxy p \<Rightarrow> Some (proxy_attr inherited c requests_get p m)
      | _ \<Rightarrow> None)"

section \<open>Example environments\<close>

text \<open>A configured store, and collaborators that always give the same answer.\<close>

definition example_config :: config where
  "example_config = configure initial_config ''https://vault.example/'' ''pk_test''"

definition answer :: "response \<Rightarrow> http" where
  "answer r req = Inr r"

definition unreachable :: "string \<Rightarrow> http" where
  "unreachable cause req = Inl (RequestException cause)"

definition reply :: "int \<Rightarrow> string \<Rightarrow> py_exception + json \<Rightarrow> response" where
  "reply code body decoded = \<lparr>status_code = code, text_body = body, json_result = decoded\<rparr>"

section \<open>Facts about the helpers\<close>

lemma get_prompt_configured:
  assumes "truthy_str (base_url c)" and "truthy_str (api_key c)"
  shows "get_prompt c requests_get slug project_slug version =
           ([build_request c slug project_slug version],
            except_request_exception
              (case requests_get (build_request c slug project_slug version) of
                 Inl e \<Rightarrow> Inl e
               | Inr r \<Rightarrow> on_response slug project_slug r))"
  using assms by (simp add: get_prompt_def Let_def)

lemma example_config_eq:
  "example_config = \<lparr>base_url = Some ''https://vault.example'', api_key = Some ''pk_test''\<rparr>"
  by (simp add: example_config_def configure_def initial_config_def rstrip_def)

lemma example_config_truthy:
  "truthy_str (base_url example_config)" "truthy_str (api_key example_config)"
  by (simp_all add: example_config_eq)

lemma configure_overwrites:
  "configure c b k = \<lparr>base_url = Some (rstrip ''/'' b), api_key = Some k\<rparr>"
  by (simp add: configure_def)

lemma configure_all_last:
  "calls \<noteq> [] \<Longrightarrow> configure_all c calls = configure c0 (fst (last calls)) (snd (last calls))"
proof (induction calls arbitrary: c)
  case Nil
  then show ?case by simp
next
  case (Cons call calls)
  obtain b k where call: "call = (b, k)"
    by (cases call)
  show ?case
  proof (cases "calls = []")
    case True
    then show ?thesis
      by (simp add: call configure_overwrites)
  next
    case False
    then show ?thesis
      using Cons.IH [of "configure c b k"] by (simp add: call)
  qed
qed

lemma rstrip_removes_only_that_char:
  "\<exists>n. s = rstrip [x] s @ replicate n x"
proof -
  let ?P = "\<lambda>c. c \<in> set [x]"
  let ?tail = "rev (takeWhile ?P (rev s))"
  have "rev (takeWhile ?P (rev s) @ dropWhile ?P (rev s)) = s"
    by (simp only: takeWhile_dropWhile_id rev_rev_ident)
  then have split: "s = rstrip [x] s @ ?tail"
    by (simp only: rstrip_def rev_append)
  have "\<forall>c \<in> set ?tail. c = x"
    by (auto dest: set_takeWhileD)
  then have "replicate (length ?tail) x = ?tail"
    by (rule replicate_length_same)
  with split have "s = rstrip [x] s @ replicate (length ?tail) x"
    by simp
  then show ?thesis ..
qed

lemma rstrip_leaves_no_trailing:
  "rstrip chars s \<noteq> t @ [ch] \<or> ch \<notin> set chars"
proof (cases "rstrip chars s = t @ [ch]")
  case False
  then show ?thesis by simp
next
  case True
  then have "dropWhile (\<lambda>c. c \<in> set chars) (rev s) = ch # rev t"
    by (simp add: rstrip_def rev_swap)
  then have "\<not> (ch \<in> set chars)"
    by (metis (mono_tags, lifting) hd_dropWhile list.sel(1) list.distinct(1))
  then show ?thesis by simp
qed

lemma subscript_not_caught:
  "except_request_exception (subscript body key) = subscript body key"
  by (cases body) (simp_all split: option.splits)

section \<open>Theorems\<close>

text \<open>
  C2. Before any call of \<^verbatim>\<open>configure\<close> the store is \<open>initial_config\<close>; whatever the arguments
  and whatever the network would answer, \<^verbatim>\<open>get_prompt\<close> raises the "not configured"
  \<^verbatim>\<open>ValueError\<close> and hands no request to \<^verbatim>\<open>requests.get\<close>.
\<close>

theorem get_prompt_before_configure:
  "get_prompt initial_config requests_get slug project_slug version
     = ([], Inl (ValueError ''PromptVault not configured. Call promptvault.configure() first.''))"
  by (simp add: get_prompt_def initial_config_def not_configured_def)

theorem get_prompt_before_configure_witness:
  "get_prompt initial_config (answer (reply 200 ''{}'' (Inr (JObj [(''content'', JStr ''X'')]))))
     ''research-manager'' ''agents-lextenso'' (Some 2)
     = ([], Inl (ValueError ''PromptVault not configured. Call promptvault.configure() first.''))"
  by (rule get_prompt_before_configure)

text \<open>
  C1. With both configuration values set, if the collaborator answers the request with
  status 200 and a JSON object whose \<^verbatim>\<open>content\<close> entry is the string \<open>X\<close>, then \<^verbatim>\<open>get_prompt\<close>
  returns exactly \<open>X\<close>, for every slug, project slug and version.
\<close>

theorem get_prompt_200_content:
  assumes "truthy_str (base_url c)" and "truthy_str (api_key c)"
    and "requests_get (build_request c slug project_slug version) = Inr r"
    and "status_code r = 200"
    and "json_result r = Inr (JObj kvs)"
    and "map_of kvs ''content'' = Some (JStr X)"
  shows "snd (get_prompt c requests_get slug project_slug version) = Inr (JStr X)"
  using assms by (simp add: get_prompt_configured on_response_def)

theorem get_prompt_200_content_witness:
  "snd (get_prompt example_config
          (answer (reply 200 ''{\"content\": \"X\"}'' (Inr (JObj [(''content'', JStr ''X'')]))))
          ''research-manager'' ''agents-lextenso'' None) = Inr (JStr ''X'')"
  by (rule get_prompt_200_content [where kvs = "[(''content'', JStr ''X'')]"
        and r = "reply 200 ''{\"content\": \"X\"}'' (Inr (JObj [(''content'', JStr ''X'')]))"])
     (simp_all add: example_config_truthy answer_def reply_def)

text \<open>
  C3, as amended. With both configuration values set and a response received, status 401
  raises \<^verbatim>\<open>ValueError("Invalid API key")\<close>; status 404 raises a \<^verbatim>\<open>ValueError\<close> whose message
  quotes the slug and the project slug; and every status other than 200, 401, 403 and 404
  raises \<^verbatim>\<open>Exception("API error: <status> - <body text>")\<close>. Status 403 has a branch of its
  own and is not an API error.
\<close>

theorem get_prompt_status_errors:
  assumes "truthy_str (base_url c)" and "truthy_str (api_key c)"
    and "requests_get (build_request c slug project_slug version) = Inr r"
  shows "(status_code r = 401 \<longrightarrow>
            snd (get_prompt c requests_get slug project_slug version)
              = Inl (ValueError ''Invalid API key''))
       \<and> (status_code r = 404 \<longrightarrow>
            snd (get_prompt c requests_get slug project_slug version)
              = Inl (ValueError (''Prompt '' @ [apostrophe] @ slug @ [apostrophe]
                      @ '' not found in project '' @ [apostrophe] @ project_slug @ [apostrophe])))
       \<and> (status_code r \<notin> {200, 401, 403, 404} \<longrightarrow>
            snd (get_prompt c requests_get slug project_slug version)
              = Inl (PyException (''API error: '' @ str_int (status_code r) @ '' - '' @ text_body r)))"
  using assms by (simp add: get_prompt_configured on_response_def)

theorem get_prompt_status_errors_witness:
  "snd (get_prompt example_config (answer (reply 401 ''denied'' (Inl (ValueError ''not JSON''))))
          ''research-manager'' ''agents-lextenso'' None)
     = Inl (ValueError ''Invalid API key'')
   \<and> snd (get_prompt example_config (answer (reply 404 ''missing'' (Inl (ValueError ''not JSON''))))
          ''research-manager'' ''agents-lextenso'' None)
     = Inl (ValueError (''Prompt '' @ [apostrophe] @ ''research-manager'' @ [apostrophe]
             @ '' not found in project '' @ [apostrophe] @ ''agents-lextenso'' @ [apostrophe]))
   \<and> snd (get_prompt example_config (answer (reply 500 ''boom'' (Inl (ValueError ''not JSON''))))
          ''research-manager'' ''agents-lextenso'' None)
     = Inl (PyException ''API error: 500 - boom'')"
proof -
  have s500: "str_int 500 = ''500''"
    by code_simp
  note at = get_prompt_status_errors [OF example_config_truthy, where slug = "''research-manager''"
      and project_slug = "''agents-lextenso''" and version = None]
  have a: "snd (get_prompt example_config (answer (reply 401 ''denied'' (Inl (ValueError ''not JSON''))))
          ''research-manager'' ''agents-lextenso'' None) = Inl (ValueError ''Invalid API key'')"
    using at [of "answer (reply 401 ''denied'' (Inl (ValueError ''not JSON'')))"
        "reply 401 ''denied'' (Inl (ValueError ''not JSON''))"]
    by (simp add: answer_def reply_def)
  have b: "snd (get_prompt example_config (answer (reply 404 ''missing'' (Inl (ValueError ''not JSON''))))
          ''research-manager'' ''agents-lextenso'' None)
     = Inl (ValueError (''Prompt '' @ [apostrophe] @ ''research-manager'' @ [apostrophe]
             @ '' not found in project '' @ [apostrophe] @ ''agents-lextenso'' @ [apostrophe]))"
    using at [of "answer (reply 404 ''missing'' (Inl (ValueError ''not JSON'')))"
        "reply 404 ''missing'' (Inl (ValueError ''not JSON''))"]
    by (simp add: answer_def reply_def)
  have c: "snd (get_prompt example_config (answer (reply 500 ''boom'' (Inl (ValueError ''not JSON''))))
          ''research-manager'' ''agents-lextenso'' None)
     = Inl (PyException ''API error: 500 - boom'')"
    using at [of "answer (reply 500 ''boom'' (Inl (ValueError ''not JSON'')))"
        "reply 500 ''boom'' (Inl (ValueError ''not JSON''))"]
    by (simp add: answer_def reply_def s500)
  from a b c show ?thesis by blast
qed

text \<open>
  The claim C3 as worded sends every non-200 status other than 401 and 404 to the API
  error. Status 403 is such a status and raises \<^verbatim>\<open>ValueError("Access denied to this project")\<close>
  instead.
\<close>

theorem get_prompt_403_not_api_error:
  "snd (get_prompt example_config (answer (reply 403 ''Forbidden'' (Inl (ValueError ''not JSON''))))
          ''research-manager'' ''agents-lextenso'' None)
     = Inl (ValueError ''Access denied to this project'')
   \<and> snd (get_prompt example_config (answer (reply 403 ''Forbidden'' (Inl (ValueError ''not JSON''))))
          ''research-manager'' ''agents-lextenso'' None)
     \<noteq> Inl (PyException ''API error: 403 - Forbidden'')"
  by (simp add: get_prompt_configured example_config_truthy answer_def reply_def on_response_def)

text \<open>
  C4. The claim has the 403 error carry the requested project slug, as the neighbouring
  404 branch does when it quotes \<^verbatim>\<open>project_slug\<close> in its message. The code does not do so:
  with both configuration values set, a response with status 403 makes \<^verbatim>\<open>get_prompt\<close> raise
  \<^verbatim>\<open>ValueError("Access denied to this project")\<close> after its single request, a text in which
  the project slug does not occur, whatever slug was asked for.
\<close>

theorem get_prompt_403:
  assumes "truthy_str (base_url c)" and "truthy_str (api_key c)"
    and "requests_get (build_request c slug project_slug version) = Inr r"
    and "status_code r = 403"
  shows "get_prompt c requests_get slug project_slug version
           = ([build_request c slug project_slug version],
              Inl (ValueError ''Access denied to this project''))"
  using assms by (simp add: get_prompt_configured on_response_def)

theorem get_prompt_403_witness:
  "get_prompt example_config (answer (reply 403 ''Forbidden'' (Inl (ValueError ''not JSON''))))
     ''research-manager'' ''agents-lextenso'' None
     = ([build_request example_config ''research-manager'' ''agents-lextenso'' None],
        Inl (ValueError ''Access denied to this project''))"
  by (rule get_prompt_403 [where r = "reply 403 ''Forbidden'' (Inl (ValueError ''not JSON''))"])
     (simp_all add: example_config_truthy answer_def reply_def)

text \<open>
  The defect at a concrete input: two requests for different project slugs, each answered
  with status 403, raise one and the same error, so the error does not tell which project
  was asked for.
\<close>

theorem get_prompt_403_same_for_two_projects:
  "''agents-lextenso'' \<noteq> ''other-project''
   \<and> snd (get_prompt example_config (answer (reply 403 ''Forbidden'' (Inl (ValueError ''not JSON''))))
          ''research-manager'' ''agents-lextenso'' None)
     = snd (get_prompt example_config (answer (reply 403 ''Forbidden'' (Inl (ValueError ''not JSON''))))
          ''research-manager'' ''other-project'' None)"
  by (simp add: get_prompt_configured example_config_truthy answer_def reply_def on_response_def)

text \<open>
  C8. With both configuration values set, when the single call of \<^verbatim>\<open>requests.get\<close> raises a
  \<^verbatim>\<open>RequestException\<close> (connection refused, DNS failure, timeout, ...), \<^verbatim>\<open>get_prompt\<close> raises
  \<^verbatim>\<open>Exception("Network error: <cause>")\<close>: the transport exception does not escape and no
  other error is produced.
\<close>

theorem get_prompt_transport_failure:
  assumes "truthy_str (base_url c)" and "truthy_str (api_key c)"
    and "requests_get (build_request c slug project_slug version) = Inl (RequestException cause)"
  shows "get_prompt c requests_get slug project_slug version
           = ([build_request c slug project_slug version],
              Inl (PyException (''Network error: '' @ cause)))"
  using assms by (simp add: get_prompt_configured)

theorem get_prompt_transport_failure_witness:
  "get_prompt example_config (unreachable ''Read timed out.'')
     ''research-manager'' ''agents-lextenso'' None
     = ([build_request example_config ''research-manager'' ''agents-lextenso'' None],
        Inl (PyException ''Network error: Read timed out.''))"
  using get_prompt_transport_failure [OF example_config_truthy,
      of "unreachable ''Read timed out.''" "''research-manager''" "''agents-lextenso''" None
         "''Read timed out.''"]
  by (simp add: unreachable_def)

text \<open>
  C9. After \<^verbatim>\<open>configure\<close> with an empty base URL or an empty API key, \<^verbatim>\<open>get_prompt\<close> raises the
  "not configured" \<^verbatim>\<open>ValueError\<close> and sends no request, whatever the store held before. In
  general, for any store, that outcome occurs exactly when one of the two stored values is
  falsy.
\<close>

theorem configure_falsy_not_configured:
  "(b = [] \<or> k = [] \<longrightarrow>
      get_prompt (configure c b k) requests_get slug project_slug version
        = ([], Inl (ValueError ''PromptVault not configured. Call promptvault.configure() first.'')))
   \<and> (get_prompt c' requests_get slug project_slug version
        = ([], Inl (ValueError ''PromptVault not configured. Call promptvault.configure() first.''))
      \<longleftrightarrow> \<not> truthy_str (base_url c') \<or> \<not> truthy_str (api_key c'))"
  by (auto simp add: get_prompt_def configure_def not_configured_def rstrip_def Let_def)

theorem configure_falsy_not_configured_witness:
  "get_prompt (configure example_config [] ''pk_test'')
       (answer (reply 200 ''{}'' (Inr (JObj [(''content'', JStr ''X'')]))))
       ''research-manager'' ''agents-lextenso'' None
     = ([], Inl (ValueError ''PromptVault not configured. Call promptvault.configure() first.''))
   \<and> get_prompt (configure example_config ''https://vault.example'' [])
       (answer (reply 200 ''{}'' (Inr (JObj [(''content'', JStr ''X'')]))))
       ''research-manager'' ''agents-lextenso'' None
     = ([], Inl (ValueError ''PromptVault not configured. Call promptvault.configure() first.''))"
  using configure_falsy_not_configured [of "[]" "''pk_test''" example_config
      "answer (reply 200 ''{}'' (Inr (JObj [(''content'', JStr ''X'')])))"
      "''research-manager''" "''agents-lextenso''" None example_config]
    configure_falsy_not_configured [of "''https://vault.example''" "[]" example_config
      "answer (reply 200 ''{}'' (Inr (JObj [(''content'', JStr ''X'')])))"
      "''research-manager''" "''agents-lextenso''" None example_config]
  by simp

text \<open>
  C6. Every request \<^verbatim>\<open>get_prompt\<close> sends has the parameters \<^verbatim>\<open>projectSlug\<close> and, exactly when the
  version argument is given and is not \<open>0\<close>, \<^verbatim>\<open>version\<close> with that number after it; with the
  version omitted (or \<open>0\<close>) the dictionary has no \<^verbatim>\<open>version\<close> key at all. A configured client
  sends exactly that one request.
\<close>

theorem get_prompt_version_param:
  "(\<forall>req \<in> set (fst (get_prompt c requests_get slug project_slug version)).
      params req = (''projectSlug'', PStr project_slug)
                     # (case version of
                          None \<Rightarrow> []
                        | Some v \<Rightarrow> if v = 0 then [] else [(''version'', PInt v)])
    \<and> (''version'' \<in> fst ` set (params req) \<longleftrightarrow> version \<noteq> None \<and> version \<noteq> Some 0))
   \<and> (truthy_str (base_url c) \<and> truthy_str (api_key c) \<longrightarrow>
        fst (get_prompt c requests_get slug project_slug version)
          = [build_request c slug project_slug version])"
  by (cases version) (simp_all add: get_prompt_def build_request_def Let_def)

theorem get_prompt_version_param_witness:
  "map params (fst (get_prompt example_config (unreachable ''down'')
                      ''research-manager'' ''agents-lextenso'' (Some 2)))
     = [[(''projectSlug'', PStr ''agents-lextenso''), (''version'', PInt 2)]]
   \<and> map params (fst (get_prompt example_config (unreachable ''down'')
                      ''research-manager'' ''agents-lextenso'' None))
     = [[(''projectSlug'', PStr ''agents-lextenso'')]]
   \<and> map params (fst (get_prompt example_config (unreachable ''down'')
                      ''research-manager'' ''agents-lextenso'' (Some 0)))
     = [[(''projectSlug'', PStr ''agents-lextenso'')]]"
  using get_prompt_version_param [of example_config "unreachable ''down''"
      "''research-manager''" "''agents-lextenso''" "Some 2"]
    get_prompt_version_param [of example_config "unreachable ''down''"
      "''research-manager''" "''agents-lextenso''" None]
    get_prompt_version_param [of example_config "unreachable ''down''"
      "''research-manager''" "''agents-lextenso''" "Some 0"]
  by (simp add: example_config_truthy)

text \<open>
  C7. After any non-empty run of \<^verbatim>\<open>configure\<close> calls ending in \<^verbatim>\<open>configure(b, k)\<close>, from any
  earlier store, the store is what that last call alone leaves from any store \<open>c0\<close>;
  repeating the last call changes nothing; the stored base URL is \<open>b\<close> without its trailing
  slashes (what was removed is slashes only and what is kept does not end in a slash) and
  the stored key is \<open>k\<close> itself. \<^verbatim>\<open>configure\<close> has no failing branch: nothing is validated.
\<close>

theorem configure_last_call_wins:
  assumes "calls \<noteq> []" and "last calls = (b, k)"
  shows "configure_all c calls = configure c0 b k
       \<and> configure (configure_all c calls) b k = configure_all c calls
       \<and> base_url (configure_all c calls) = Some (rstrip ''/'' b)
       \<and> api_key (configure_all c calls) = Some k
       \<and> (\<exists>n. b = rstrip ''/'' b @ replicate n CHR ''/'')
       \<and> (\<forall>t. rstrip ''/'' b \<noteq> t @ ''/'')"
proof -
  have all: "configure_all c calls = \<lparr>base_url = Some (rstrip ''/'' b), api_key = Some k\<rparr>"
    using configure_all_last [OF assms(1), of c c] assms(2)
    by (simp add: configure_overwrites)
  have suffix: "\<exists>n. b = rstrip ''/'' b @ replicate n CHR ''/''"
    by (rule rstrip_removes_only_that_char)
  have clean: "\<forall>t. rstrip ''/'' b \<noteq> t @ ''/''"
    using rstrip_leaves_no_trailing [of "''/''" b _ "CHR ''/''"] by simp
  show ?thesis
    using suffix clean by (simp add: all configure_overwrites)
qed

theorem configure_last_call_wins_witness:
  "configure_all initial_config
     [(''http://old.example'', ''k1''), (''https://vault.example//'', ''pk_test''),
      (''https://vault.example//'', ''pk_test'')]
     = \<lparr>base_url = Some ''https://vault.example'', api_key = Some ''pk_test''\<rparr>"
  using configure_last_call_wins [of
      "[(''http://old.example'', ''k1''), (''https://vault.example//'', ''pk_test''),
        (''https://vault.example//'', ''pk_test'')]"
      "''https://vault.example//''" "''pk_test''" initial_config initial_config]
  by (simp add: configure_overwrites rstrip_def)

text \<open>
  C10, as amended. With both configuration values set and a 200 response whose body
  decodes, a JSON object without the key \<^verbatim>\<open>content\<close> makes \<^verbatim>\<open>get_prompt\<close> raise
  \<^verbatim>\<open>KeyError('content')\<close>, and a JSON value that is not an object (an array, a string, a
  number, a boolean, null) makes it raise \<^verbatim>\<open>TypeError\<close>. Neither is a returned value, an
  \<^verbatim>\<open>Exception("API error: ...")\<close> or an \<^verbatim>\<open>Exception("Network error: ...")\<close>.
\<close>

theorem get_prompt_200_without_content:
  assumes "truthy_str (base_url c)" and "truthy_str (api_key c)"
    and "requests_get (build_request c slug project_slug version) = Inr r"
    and "status_code r = 200"
    and "json_result r = Inr body"
  shows "(\<forall>kvs. body = JObj kvs \<and> map_of kvs ''content'' = None \<longrightarrow>
            snd (get_prompt c requests_get slug project_slug version) = Inl (KeyError ''content''))
       \<and> ((\<forall>kvs. body \<noteq> JObj kvs) \<longrightarrow>
            snd (get_prompt c requests_get slug project_slug version) = Inl TypeError)"
proof -
  have res: "snd (get_prompt c requests_get slug project_slug version) = subscript body ''content''"
    using assms by (simp add: get_prompt_configured on_response_def subscript_not_caught)
  show ?thesis
    unfolding res by (cases body) simp_all
qed

theorem get_prompt_200_without_content_witness:
  "snd (get_prompt example_config (answer (reply 200 ''{\"text\": \"X\"}'' (Inr (JObj [(''text'', JStr ''X'')]))))
          ''research-manager'' ''agents-lextenso'' None) = Inl (KeyError ''content'')
   \<and> snd (get_prompt example_config (answer (reply 200 ''\"X\"'' (Inr (JStr ''X''))))
          ''research-manager'' ''agents-lextenso'' None) = Inl TypeError"
  using get_prompt_200_without_content [OF example_config_truthy,
      of "answer (reply 200 ''{\"text\": \"X\"}'' (Inr (JObj [(''text'', JStr ''X'')])))"
         "''research-manager''" "''agents-lextenso''" None
         "reply 200 ''{\"text\": \"X\"}'' (Inr (JObj [(''text'', JStr ''X'')]))"
         "JObj [(''text'', JStr ''X'')]"]
    get_prompt_200_without_content [OF example_config_truthy,
      of "answer (reply 200 ''\"X\"'' (Inr (JStr ''X'')))"
         "''research-manager''" "''agents-lextenso''" None
         "reply 200 ''\"X\"'' (Inr (JStr ''X''))"
         "JStr ''X''"]
  by (simp add: answer_def reply_def)

text \<open>
  The claim C10 as worded gives \<^verbatim>\<open>KeyError\<close> also for a body that is not a JSON object. A 200
  response whose body is the empty JSON array raises \<^verbatim>\<open>TypeError\<close>.
\<close>

theorem get_prompt_200_array_is_type_error:
  "snd (get_prompt example_config (answer (reply 200 ''[]'' (Inr (JArr []))))
          ''research-manager'' ''agents-lextenso'' None) = Inl TypeError
   \<and> snd (get_prompt example_config (answer (reply 200 ''[]'' (Inr (JArr []))))
          ''research-manager'' ''agents-lextenso'' None) \<noteq> Inl (KeyError ''content'')"
  by (simp add: get_prompt_configured example_config_truthy answer_def reply_def on_response_def)

text \<open>
  C5, as amended. For attribute names \<open>n\<close> and \<open>m\<close> that the normal lookup does not find
  (\<open>n\<close> is not \<^verbatim>\<open>configure\<close>, \<^verbatim>\<open>get_prompt\<close>, \<^verbatim>\<open>__getattr__\<close> or an inherited name; \<open>m\<close> is not
  \<^verbatim>\<open>_project_slug\<close>, \<^verbatim>\<open>__init__\<close>, \<^verbatim>\<open>__getattr__\<close> or an inherited name), \<^verbatim>\<open>root.n.m\<close> has the
  outcome of \<^verbatim>\<open>get_prompt(m', n')\<close>, with \<open>m'\<close> and \<open>n'\<close> the names with every underscore
  replaced by a hyphen, and every request of that fetch goes to
  \<^verbatim>\<open>{base_url}/api/prompts/{m'}\<close> with \<^verbatim>\<open>projectSlug\<close> = \<open>n'\<close> as its only parameter (no version).
\<close>

theorem dotted_access_fetches:
  assumes "n \<notin> set (module_names @ inherited)"
    and "m \<notin> set (''_project_slug'' # proxy_names @ inherited)"
  shows "dotted inherited c requests_get n m
           = Some (as_value (get_prompt c requests_get
                     (replace_char CHR ''_'' CHR ''-'' m) (replace_char CHR ''_'' CHR ''-'' n) None))
       \<and> (\<forall>req \<in> set (fst (get_prompt c requests_get
                     (replace_char CHR ''_'' CHR ''-'' m) (replace_char CHR ''_'' CHR ''-'' n) None)).
            url req = str_of (base_url c) @ ''/api/prompts/'' @ replace_char CHR ''_'' CHR ''-'' m
          \<and> params req = [(''projectSlug'', PStr (replace_char CHR ''_'' CHR ''-'' n))])"
proof -
  have first: "module_attr inherited n = Proxy (PromptProxy (replace_char CHR ''_'' CHR ''-'' n))"
    using assms(1) by (simp add: module_attr_def PromptVaultModule_getattr_def)
  have second: "proxy_attr inherited c requests_get (PromptProxy (replace_char CHR ''_'' CHR ''-'' n)) m
      = as_value (get_prompt c requests_get
          (replace_char CHR ''_'' CHR ''-'' m) (replace_char CHR ''_'' CHR ''-'' n) None)"
    using assms(2) by (simp add: proxy_attr_def PromptProxy_getattr_def)
  have sent: "\<forall>req \<in> set (fst (get_prompt c requests_get
                     (replace_char CHR ''_'' CHR ''-'' m) (replace_char CHR ''_'' CHR ''-'' n) None)).
            url req = str_of (base_url c) @ ''/api/prompts/'' @ replace_char CHR ''_'' CHR ''-'' m
          \<and> params req = [(''projectSlug'', PStr (replace_char CHR ''_'' CHR ''-'' n))]"
    by (simp add: get_prompt_def build_request_def Let_def)
  show ?thesis
    using sent by (simp add: dotted_def first second)
qed

theorem dotted_access_fetches_witness:
  "dotted [''__class__'', ''__dict__'', ''__doc__'', ''__init__''] example_config
     (answer (reply 200 ''{\"content\": \"X\"}'' (Inr (JObj [(''content'', JStr ''X'')]))))
     ''agents_lextenso'' ''research_manager''
   = Some ([\<lparr>url = ''https://vault.example/api/prompts/research-manager'',
             headers = [(''x-api-key'', ''pk_test'')],
             params = [(''projectSlug'', PStr ''agents-lextenso'')],
             timeout = 10\<rparr>],
           Inr (Data (JStr ''X'')))"
  using dotted_access_fetches [of "''agents_lextenso''" "[''__class__'', ''__dict__'', ''__doc__'', ''__init__'']"
      "''research_manager''" example_config
      "answer (reply 200 ''{\"content\": \"X\"}'' (Inr (JObj [(''content'', JStr ''X'')])))"]
  by (simp add: module_names_def proxy_names_def replace_char_def as_value_def
        get_prompt_configured example_config_truthy build_request_def example_config_eq
        answer_def reply_def on_response_def)

text \<open>
  The claim C5 as worded covers every pair of attribute names. \<^verbatim>\<open>_project_slug\<close> is an
  attribute every proxy has: \<^verbatim>\<open>root.agents_lextenso._project_slug\<close> is the string
  \<^verbatim>\<open>agents-lextenso\<close> and sends nothing, while \<^verbatim>\<open>get_prompt("-project-slug", "agents-lextenso")\<close>
  sends a request.
\<close>

theorem dotted_project_slug_is_not_fetched:
  "dotted [] example_config
     (answer (reply 200 ''{\"content\": \"X\"}'' (Inr (JObj [(''content'', JStr ''X'')]))))
     ''agents_lextenso'' ''_project_slug''
   \<noteq> Some (as_value (get_prompt example_config
        (answer (reply 200 ''{\"content\": \"X\"}'' (Inr (JObj [(''content'', JStr ''X'')]))))
        (replace_char CHR ''_'' CHR ''-'' ''_project_slug'')
        (replace_char CHR ''_'' CHR ''-'' ''agents_lextenso'') None))"
  by (simp add: dotted_def module_attr_def module_names_def proxy_attr_def
        PromptVaultModule_getattr_def as_value_def get_prompt_configured example_config_truthy)

end
